theory Spec2Isabelle
  imports Main "HOL-Library.Monad_Syntax"
begin

section \<open>Data model\<close>

text \<open>
  The rules engine of Breakthrough in \<^verbatim>\<open>src/breakthrough/BreakthroughGame.py\<close>.
  A board is a two-dimensional numpy array, kept here as the list of its rows. A failing
  Python operation (\<^verbatim>\<open>IndexError\<close>, a shape mismatch of an elementwise operation) is the
  value \<open>None\<close>. Cells, players and actions are Python integers and are kept as \<open>int\<close>;
  the only arithmetic the engine does on cells is a multiplication by the player and the
  \<^verbatim>\<open>+= 1\<close>, \<^verbatim>\<open>-= 1\<close> of the initial position, which stay inside the range of
  \<^verbatim>\<open>int8\<close> for cells in \<open>{-1, 0, 1}\<close>.
\<close>

type_synonym board = "int list list"

text \<open>The two assertions of \<^verbatim>\<open>__init__\<close>: every game object has an even size of at least 4.\<close>

definition BreakthroughGame :: "nat \<Rightarrow> bool" where
  "BreakthroughGame n \<longleftrightarrow> n \<ge> 4 \<and> n mod 2 = 0"

text \<open>An \<open>n\<close> by \<open>n\<close> array, and the three cell values of the game.\<close>

definition square :: "nat \<Rightarrow> board \<Rightarrow> bool" where
  "square n b \<longleftrightarrow> length b = n \<and> (\<forall>r \<in> set b. length r = n)"

definition cells_ok :: "board \<Rightarrow> bool" where
  "cells_ok b \<longleftrightarrow> (\<forall>r \<in> set b. \<forall>x \<in> set r. x = -1 \<or> x = 0 \<or> x = 1)"

text \<open>
  Index normalisation of Python and numpy for a sequence of length \<open>len\<close>: an index in
  \<open>[0, len)\<close> is itself, an index in \<open>[-len, 0)\<close> counts from the end, anything else raises.
\<close>

definition np_index :: "nat \<Rightarrow> int \<Rightarrow> nat option" where
  "np_index len i =
     (if 0 \<le> i \<and> i < int len then Some (nat i)
      else if - int len \<le> i \<and> i < 0 then Some (nat (int len + i))
      else None)"

text \<open>\<^verbatim>\<open>board[r]\<close>, \<^verbatim>\<open>board[r][c]\<close> and \<^verbatim>\<open>board[r][c] = v\<close>.\<close>

definition getrow :: "board \<Rightarrow> int \<Rightarrow> int list option" where
  "getrow b r = map_option (\<lambda>i. b ! i) (np_index (length b) r)"

definition getitem :: "board \<Rightarrow> int \<Rightarrow> int \<Rightarrow> int option" where
  "getitem b r c =
     (case getrow b r of
        None \<Rightarrow> None
      | Some row \<Rightarrow> map_option (\<lambda>j. row ! j) (np_index (length row) c))"

definition setitem :: "board \<Rightarrow> int \<Rightarrow> int \<Rightarrow> int \<Rightarrow> board option" where
  "setitem b r c v =
     (case np_index (length b) r of
        None \<Rightarrow> None
      | Some i \<Rightarrow>
          (case np_index (length (b ! i)) c of
             None \<Rightarrow> None
           | Some j \<Rightarrow> Some (b[i := (b ! i)[j := v]])))"

section \<open>The action codec\<close>

definition getActionSize :: "nat \<Rightarrow> int" where
  "getActionSize n = (3 * int n - 2) * (int n - 1)"

text \<open>
  Lines 72 to 88 of \<^verbatim>\<open>getNextState\<close>: the coordinates
  \<open>(src_row, src_col, dest_row, dest_col)\<close> an action stands for. Python's \<^verbatim>\<open>//\<close> and
  \<^verbatim>\<open>%\<close> round towards minus infinity, as \<open>div\<close> and \<open>mod\<close> on \<open>int\<close> do; the divisors
  \<open>n - 1\<close> and \<open>n // 2\<close> are positive for every game object.
\<close>

definition decode :: "nat \<Rightarrow> int \<Rightarrow> int \<Rightarrow> int \<times> int \<times> int \<times> int" where
  "decode n player action =
     (let left_act = min action ((int n - 1) * (3 * int n - 2) - action - 1);
          (src_row, src_col, dest_row, dest_col) =
            (if left_act < (int n - 1) * (int n - 1) then
               (let dest_row = left_act div (int n - 1);
                    src_col = left_act mod (int n - 1)
                in (dest_row + 1, src_col, dest_row, src_col + 1))
             else
               (let la_zeroed = left_act - (int n - 1) * (int n - 1);
                    dest_row = la_zeroed div (int n div 2);
                    dest_col = la_zeroed mod (int n div 2)
                in (dest_row + 1, dest_col, dest_row, dest_col)));
          (src_col, dest_col) =
            (if left_act < action then (int n - src_col - 1, int n - dest_col - 1)
             else (src_col, dest_col));
          (src_row, dest_row) =
            (if player < 0 then (int n - src_row - 1, int n - dest_row - 1)
             else (src_row, dest_row))
      in (src_row, src_col, dest_row, dest_col))"

section \<open>State transition\<close>

text \<open>
  \<^verbatim>\<open>getNextState\<close> copies its argument and writes into the copy, so whether the caller's
  array survives depends on which array a write reaches. Arrays therefore live in a store:
  \<open>arrays\<close> gives the contents at each address and \<open>next_free\<close> is the first address
  never handed out. \<^verbatim>\<open>np.copy\<close> allocates, an indexed assignment updates in place.
\<close>

record store =
  arrays :: "nat \<Rightarrow> board"
  next_free :: nat

definition np_copy :: "store \<Rightarrow> nat \<Rightarrow> store \<times> nat" where
  "np_copy s a =
     (s\<lparr>arrays := (arrays s)(next_free s := arrays s a), next_free := Suc (next_free s)\<rparr>,
      next_free s)"

definition store_setitem :: "store \<Rightarrow> nat \<Rightarrow> int \<Rightarrow> int \<Rightarrow> int \<Rightarrow> store option" where
  "store_setitem s a r c v =
     map_option (\<lambda>b. s\<lparr>arrays := (arrays s)(a := b)\<rparr>) (setitem (arrays s a) r c v)"

definition getNextState :: "nat \<Rightarrow> store \<Rightarrow> nat \<Rightarrow> int \<Rightarrow> int \<Rightarrow> (store \<times> nat \<times> int) option" where
  "getNextState n s board player action =
     (let (s, board) = np_copy s board;
          (src_row, src_col, dest_row, dest_col) = decode n player action
      in do {
        s \<leftarrow> store_setitem s board src_row src_col 0;
        s \<leftarrow> store_setitem s board dest_row dest_col player;
        Some (s, board, - player)
      })"

section \<open>Canonical form, mirrors and the validity mask\<close>

definition flipud :: "'a list list \<Rightarrow> 'a list list" where
  "flipud b = rev b"

definition fliplr :: "'a list list \<Rightarrow> 'a list list" where
  "fliplr b = map rev b"

definition getCanonicalForm :: "board \<Rightarrow> int \<Rightarrow> board" where
  "getCanonicalForm board player =
     (if player > 0 then board else flipud (map (map (\<lambda>x. x * player)) board))"

text \<open>
  Elementwise comparisons with 0, and \<^verbatim>\<open>np.logical_and\<close>, which raises when its operands
  differ in shape (numpy would still broadcast some unequal shapes; the operands below
  are slices of one array and never differ).
\<close>

definition gt0 :: "board \<Rightarrow> bool list list" where
  "gt0 b = map (map (\<lambda>x. x > 0)) b"

definition le0 :: "board \<Rightarrow> bool list list" where
  "le0 b = map (map (\<lambda>x. x \<le> 0)) b"

definition eq0 :: "board \<Rightarrow> bool list list" where
  "eq0 b = map (map (\<lambda>x. x = 0)) b"

definition logical_and :: "bool list list \<Rightarrow> bool list list \<Rightarrow> bool list list option" where
  "logical_and x y =
     (if map length x = map length y then Some (map2 (map2 (\<and>)) x y) else None)"

text \<open>
  The slices: \<^verbatim>\<open>b[1:]\<close> is \<open>tl b\<close>, \<^verbatim>\<open>b[:-1]\<close> is \<open>butlast b\<close>, \<^verbatim>\<open>b[:, :k]\<close> is
  \<open>map (take k) b\<close> and \<^verbatim>\<open>b[:, k:]\<close> is \<open>map (drop k) b\<close>. The result is the
  concatenation of the four flattened regions, cast to \<^verbatim>\<open>int8\<close> (0 or 1).
\<close>

definition getValidMoves :: "nat \<Rightarrow> board \<Rightarrow> int \<Rightarrow> int list option" where
  "getValidMoves n board player =
     (let board = getCanonicalForm board player in do {
        moves_right \<leftarrow> logical_and
          (gt0 (map butlast (tl board)))
          (le0 (map tl (butlast board)));
        moves_forward1 \<leftarrow> logical_and
          (gt0 (map (take (n div 2)) (tl board)))
          (eq0 (map (take (n div 2)) (butlast board)));
        moves_forward2 \<leftarrow> logical_and
          (gt0 (flipud (map (drop (n div 2)) (tl board))))
          (eq0 (flipud (map (drop (n div 2)) (butlast board))));
        moves_left \<leftarrow> logical_and
          (gt0 (flipud (map tl (tl board))))
          (le0 (flipud (map butlast (butlast board))));
        Some (map of_bool
          (concat moves_right @ concat moves_forward1 @
           concat moves_forward2 @ concat moves_left))
      })"

section \<open>Initial position, terminal test, symmetries, cache key\<close>

text \<open>\<^verbatim>\<open>board[row] += k\<close>, and the loop \<^verbatim>\<open>for row in rows: board[row] += k\<close>.\<close>

definition row_iadd :: "board \<Rightarrow> int \<Rightarrow> int \<Rightarrow> board option" where
  "row_iadd b row k =
     map_option (\<lambda>i. b[i := map (\<lambda>x. x + k) (b ! i)]) (np_index (length b) row)"

fun iadd_rows :: "board \<Rightarrow> int list \<Rightarrow> int \<Rightarrow> board option" where
  "iadd_rows b [] k = Some b"
| "iadd_rows b (row # rows) k =
     (case row_iadd b row k of None \<Rightarrow> None | Some b' \<Rightarrow> iadd_rows b' rows k)"

definition getInitBoard :: "nat \<Rightarrow> board option" where
  "getInitBoard n = do {
     board \<leftarrow> iadd_rows (replicate n (replicate n 0)) [0, 1] (- 1);
     iadd_rows board [int n - 1, int n - 2] 1
   }"

text \<open>Both rows are read before either test, so either index can raise.\<close>

definition getGameEnded :: "nat \<Rightarrow> board \<Rightarrow> int \<Rightarrow> int option" where
  "getGameEnded n board player = do {
     row0 \<leftarrow> getrow board 0;
     rowl \<leftarrow> getrow board (int n - 1);
     let w_win = (1 \<in> set row0); b_win = (- 1 \<in> set rowl) in
     Some (if w_win then player else if b_win then - player else 0)
   }"

definition getSymmetries :: "board \<Rightarrow> 'a list \<Rightarrow> (board \<times> 'a list) list" where
  "getSymmetries board pi = [(board, pi), (fliplr board, rev pi)]"

text \<open>
  \<^verbatim>\<open>('.', 'W', 'B')[p]\<close> for each cell in row-major order: a tuple of length 3 indexed by
  the cell, so \<open>-1\<close> reads the last entry.
\<close>

fun join_cells :: "int list \<Rightarrow> string option" where
  "join_cells [] = Some []"
| "join_cells (p # ps) =
     (case np_index 3 p of
        None \<Rightarrow> None
      | Some k \<Rightarrow> map_option (\<lambda>cs. [CHR ''.'', CHR ''W'', CHR ''B''] ! k # cs) (join_cells ps))"

definition stringRepresentation :: "board \<Rightarrow> string option" where
  "stringRepresentation board = join_cells (concat board)"

section \<open>Index arithmetic\<close>

lemma np_index_of_nat: "i < len \<Longrightarrow> np_index len (int i) = Some i"
  by (simp add: np_index_def)

lemma np_index_back: "0 < k \<Longrightarrow> k \<le> len \<Longrightarrow> np_index len (int len - int k) = Some (len - k)"
  by (auto simp: np_index_def nat_diff_distrib)

lemma even_action_count: "n mod 2 = 0 \<Longrightarrow> even ((int n - 1) * (3 * int n - 2))"
  by (simp add: even_iff_mod_2_eq_zero) presburger

section \<open>The codec and the mirror\<close>

text \<open>
  Claim C2. For a game of even size \<open>n\<close>, the coordinates decoded for action \<open>a\<close> and for
  action \<open>actionSize - 1 - a\<close>, with the same player, have the same rows and mirrored
  columns: each column \<open>c\<close> becomes \<open>n - 1 - c\<close>. This holds for every integer \<open>a\<close>, so in
  particular for every action in \<open>[0, (3n-2)(n-1))\<close>.
\<close>

theorem decode_mirror:
  assumes "BreakthroughGame n" and "decode n p a = (sr, sc, dr, dc)"
  shows "decode n p (getActionSize n - 1 - a) = (sr, int n - 1 - sc, dr, int n - 1 - dc)"
proof -
  let ?N = "(int n - 1) * (3 * int n - 2)"
  have ev: "even ?N"
    using assms(1) by (simp add: BreakthroughGame_def even_action_count)
  have ne: "2 * a \<noteq> ?N - 1"
  proof
    assume "2 * a = ?N - 1"
    then have "?N = 2 * a + 1" by simp
    then have "odd ?N" by (metis even_add even_mult_iff odd_one dvd_triv_left)
    with ev show False by simp
  qed
  have N: "getActionSize n = ?N"
    by (simp add: getActionSize_def mult.commute)
  show ?thesis
  proof (cases "a < ?N - a - 1")
    case True
    then have 1: "min a (?N - a - 1) = a"
        "min (?N - 1 - a) (?N - (?N - 1 - a) - 1) = a"
      by auto
    from True have 2: "\<not> a < a" "a < ?N - 1 - a" by auto
    show ?thesis
      using assms(2) unfolding decode_def N 1 Let_def
      by (simp only: 1 2 if_True if_False split: prod.splits if_splits) auto
  next
    case False
    with ne have F: "?N - a - 1 < a" by linarith
    then have 1: "min a (?N - a - 1) = ?N - a - 1"
        "min (?N - 1 - a) (?N - (?N - 1 - a) - 1) = ?N - a - 1"
      by auto
    from F have 2: "?N - a - 1 < a" "\<not> ?N - a - 1 < ?N - 1 - a" by auto
    show ?thesis
      using assms(2) unfolding decode_def N Let_def
      by (simp only: 1 2 if_True if_False split: prod.splits if_splits) auto
  qed
qed

theorem decode_mirror_witness:
  "BreakthroughGame 4 \<and> decode 4 1 0 = (1, 0, 0, 1) \<and>
   decode 4 1 (getActionSize 4 - 1 - 0) = (1, 3, 0, 2)"
  using decode_mirror [of 4 1 0 1 0 0 1]
  by (simp add: BreakthroughGame_def decode_def getActionSize_def)

text \<open>
  Claim C10. Whatever the action, legal or not, the decoded move is one step: the
  destination row is the source row minus 1 for player \<open>+1\<close> and plus 1 for player \<open>-1\<close>,
  the columns differ by at most 1, and source and destination are different cells. No
  bound on \<open>n\<close> or on the action is needed.
\<close>

theorem decode_single_step:
  assumes "decode n p a = (sr, sc, dr, dc)" and "p = 1 \<or> p = - 1"
  shows "dr = sr - p \<and> \<bar>dc - sc\<bar> \<le> 1 \<and> (sr, sc) \<noteq> (dr, dc)"
  using assms unfolding decode_def Let_def
  by (auto split: if_splits prod.splits)

theorem decode_single_step_witness:
  "decode 4 (- 1) 17 = (1, 2, 2, 2) \<and> ((- 1 :: int) = 1 \<or> (- 1 :: int) = - 1) \<and>
   (2 :: int) = 1 - (- 1) \<and> \<bar>(2 :: int) - 2\<bar> \<le> 1 \<and> ((1 :: int), (2 :: int)) \<noteq> (2, 2)"
  using decode_single_step [of 4 "- 1" 17 1 2 2 2]
  by (simp add: decode_def)

section \<open>Terminal test, symmetries and initial position\<close>

text \<open>
  Claim C5. On an \<open>n\<close> by \<open>n\<close> board \<^verbatim>\<open>getGameEnded\<close> returns the player when some cell of
  row 0 is \<open>+1\<close>, otherwise minus the player when some cell of row \<open>n - 1\<close> is \<open>-1\<close>,
  otherwise 0; so when both conditions hold the first one decides.
\<close>

theorem getGameEnded_value:
  assumes "BreakthroughGame n" and "square n b"
  shows "getGameEnded n b p =
     Some (if \<exists>c<n. b ! 0 ! c = 1 then p
           else if \<exists>c<n. b ! (n - 1) ! c = - 1 then - p else 0)"
proof -
  from assms have n: "0 < n" "length b = n" "length (b ! 0) = n" "length (b ! (n - 1)) = n"
    by (auto simp: BreakthroughGame_def square_def)
  have r0: "getrow b 0 = Some (b ! 0)"
    using n np_index_of_nat [of 0 "length b"] by (simp add: getrow_def)
  have rl: "getrow b (int n - 1) = Some (b ! (n - 1))"
    using n np_index_back [of 1 n] by (simp add: getrow_def)
  have a: "(1 \<in> set (b ! 0)) = (\<exists>c<n. b ! 0 ! c = 1)"
    using n by (auto simp: in_set_conv_nth)
  have c: "(- 1 \<in> set (b ! (n - 1))) = (\<exists>c<n. b ! (n - 1) ! c = - 1)"
    using n by (auto simp: in_set_conv_nth)
  show ?thesis
    unfolding getGameEnded_def r0 rl Let_def by (simp only: Option.bind.simps a c)
qed

theorem getGameEnded_value_witness:
  "BreakthroughGame 4 \<and>
   square 4 [[0, 1, 0, 0], [0, 0, 0, 0], [0, 0, 0, 0], [0, 0, - 1, 0]] \<and>
   getGameEnded 4 [[0, 1, 0, 0], [0, 0, 0, 0], [0, 0, 0, 0], [0, 0, - 1, 0]] (- 1) = Some (- 1)"
  using getGameEnded_value [of 4 "[[0, 1, 0, 0], [0, 0, 0, 0], [0, 0, 0, 0], [0, 0, - 1, 0]]" "- 1"]
  by (simp add: BreakthroughGame_def square_def getGameEnded_def getrow_def np_index_def)

text \<open>
  Claim C8. \<^verbatim>\<open>getSymmetries\<close> returns two pairs. The first is the board and the policy as
  given. The second is the board mirrored left to right (cell \<open>(r, c)\<close> holds what cell
  \<open>(r, n - 1 - c)\<close> held) with the policy \<open>pi'\<close> where \<open>pi'[i] = pi[actionSize - 1 - i]\<close>.
\<close>

theorem getSymmetries_value:
  assumes "square n b" and "int (length pi) = getActionSize n"
  shows "\<exists>b' pi'. getSymmetries b pi = [(b, pi), (b', pi')] \<and>
       b' = fliplr b \<and>
       (\<forall>r<n. \<forall>c<n. b' ! r ! c = b ! r ! (n - 1 - c)) \<and>
       length pi' = length pi \<and>
       (\<forall>i<length pi. pi' ! i = pi ! nat (getActionSize n - 1 - int i))"
proof -
  have 1: "\<forall>r<n. \<forall>c<n. fliplr b ! r ! c = b ! r ! (n - 1 - c)"
    using assms(1) by (auto simp: square_def fliplr_def rev_nth)
  have 2: "\<forall>i<length pi. rev pi ! i = pi ! nat (getActionSize n - 1 - int i)"
  proof (intro allI impI)
    fix i assume i: "i < length pi"
    then have "getActionSize n - 1 - int i = int (length pi - Suc i)"
      using assms(2) by simp
    then have "nat (getActionSize n - 1 - int i) = length pi - Suc i"
      by simp
    then show "rev pi ! i = pi ! nat (getActionSize n - 1 - int i)"
      using i by (simp add: rev_nth)
  qed
  show ?thesis
    unfolding getSymmetries_def using 1 2 by simp
qed

theorem getSymmetries_value_witness:
  "square 4 (replicate 4 [1, 0, 0, - 1]) \<and>
   int (length [0 ..< 30]) = getActionSize 4 \<and>
   getSymmetries (replicate 4 [1, 0, 0, - 1]) [0 ..< 30] =
     [(replicate 4 [1, 0, 0, - 1], [0 ..< 30]),
      (replicate 4 [- 1, 0, 0, 1], rev [0 ..< 30])]"
  using getSymmetries_value [of 4 "replicate 4 [1, 0, 0, - 1]" "[0 ..< 30]"]
  by (simp add: square_def getActionSize_def getSymmetries_def fliplr_def)

text \<open>
  Claim C9. For a game of even size \<open>n \<ge> 4\<close>, \<^verbatim>\<open>getInitBoard\<close> returns an \<open>n\<close> by \<open>n\<close>
  board whose rows 0 and 1 hold \<open>-1\<close> everywhere, whose rows \<open>n - 2\<close> and \<open>n - 1\<close> hold \<open>+1\<close>
  everywhere, and whose other cells are 0.
\<close>

theorem getInitBoard_value:
  assumes "BreakthroughGame n"
  shows "\<exists>b. getInitBoard n = Some b \<and> square n b \<and>
     (\<forall>r<n. \<forall>c<n. b ! r ! c = (if r < 2 then - 1 else if n - 2 \<le> r then 1 else 0))"
proof -
  from assms have n: "4 \<le> n" by (simp add: BreakthroughGame_def)
  let ?z = "replicate n (replicate n (0::int))"
  let ?b1 = "?z[0 := replicate n (- 1)]"
  let ?b2 = "?b1[1 := replicate n (- 1)]"
  let ?b3 = "?b2[n - 1 := replicate n 1]"
  let ?b4 = "?b3[n - 2 := replicate n 1]"
  have i1: "np_index n (int n - 1) = Some (n - 1)"
    using n np_index_back [of 1 n] by simp
  have i2: "np_index n (int n - 2) = Some (n - 2)"
    using n np_index_back [of 2 n] by simp
  have s1: "row_iadd ?z 0 (- 1) = Some ?b1"
    using n np_index_of_nat [of 0 n] by (simp add: row_iadd_def)
  have s2: "row_iadd ?b1 1 (- 1) = Some ?b2"
    using n np_index_of_nat [of 1 n] by (simp add: row_iadd_def)
  have s3: "row_iadd ?b2 (int n - 1) 1 = Some ?b3"
    using n i1 by (simp add: row_iadd_def)
  have s4: "row_iadd ?b3 (int n - 2) 1 = Some ?b4"
    using n i2 by (simp add: row_iadd_def)
  have g: "getInitBoard n = Some ?b4"
    unfolding getInitBoard_def
    by (simp only: iadd_rows.simps s1 s2 s3 s4 option.case Option.bind.simps)
  have sq: "square n ?b4"
    by (auto simp: square_def dest!: set_update_subset_insert [THEN subsetD])
  have cells: "\<forall>r<n. \<forall>c<n. ?b4 ! r ! c = (if r < 2 then - 1 else if n - 2 \<le> r then 1 else 0)"
    using n by (auto simp: nth_list_update)
  show ?thesis using g sq cells by blast
qed

theorem getInitBoard_value_witness:
  "BreakthroughGame 4 \<and>
   getInitBoard 4 = Some [[- 1, - 1, - 1, - 1], [- 1, - 1, - 1, - 1], [1, 1, 1, 1], [1, 1, 1, 1]]"
proof -
  have h: "BreakthroughGame 4"
    by (simp add: BreakthroughGame_def)
  have e: "getInitBoard 4 =
      Some [[- 1, - 1, - 1, - 1], [- 1, - 1, - 1, - 1], [1, 1, 1, 1], [1, 1, 1, 1]]"
    by code_simp
  show ?thesis
    using h e getInitBoard_value [OF h] by simp
qed

end
